theory Spec2Isabelle
  imports Main
begin

section \<open>Data model of the barter engine\<close>

text \<open>
  The tables are those of the migration \<^verbatim>\<open>20251227181847_add_new_features\<close>:
  \<^verbatim>\<open>BarterOffer\<close>, \<^verbatim>\<open>BarterItem\<close>, and the columns of \<^verbatim>\<open>Product\<close> and \<^verbatim>\<open>Vendor\<close>
  that the route handlers of \<^verbatim>\<open>vendor-barter.routes.ts\<close> and
  \<^verbatim>\<open>admin-barter.routes.ts\<close> select.  Identifiers are the \<^verbatim>\<open>TEXT\<close> keys of the
  tables; nullable columns are options.  The columns \<^verbatim>\<open>createdAt\<close> and
  \<^verbatim>\<open>updatedAt\<close> (wall-clock time) and the generated key of an item row are left
  out: no handler branches on them.  The numbers of the engine are integers
  (the schemas ask for \<^verbatim>\<open>int()\<close>, the columns are \<^verbatim>\<open>INTEGER\<close>) and are modelled
  as \<open>int\<close>; the submitted numbers are taken to fit their columns.  The
  handlers that write compare and copy these numbers; the projection multiplies
  and adds them, in the double-precision arithmetic of JavaScript, which is
  modelled with its rounding (section on JavaScript numbers below).
\<close>

datatype barterStatus =
  DRAFT | SENT | COUNTERED | ACCEPTED | REJECTED | CANCELLED | IN_PROGRESS | COMPLETED | DISPUTED

datatype cashGapDirection = INITIATOR_PAYS | RECIPIENT_PAYS

datatype vendorStatus = PENDING | APPROVED | SUSPENDED

record vendor =
  vendorStatus :: vendorStatus
  isActive :: bool

record product =
  vendorId :: string
  priceUsdCents :: int
  isAvailable :: bool
  isDeleted :: bool

record barterOffer =
  initiatorVendorId :: string
  recipientVendorId :: string
  status :: barterStatus
  cashGapCents :: int
  cashGapDirection :: "cashGapDirection option"
  message :: "string option"
  counterOfMessage :: "string option"
  parentOfferId :: "string option"
  fulfilledByInitiator :: bool
  fulfilledByRecipient :: bool
  disputeReason :: "string option"
  disputeResolvedBy :: "string option"
  disputeResolution :: "string option"

record barterItem =
  offerId :: string
  productId :: string
  quantity :: int
  valueCents :: int
  isOffered :: bool

text \<open>
  The database the handlers read and write through the Prisma client: the offer
  table keyed by offer id, the item table as the list of its rows, and the two
  catalogue tables the engine only reads.  Of the constraints of the schema the
  primary key of the offer table is modelled (see create and counter); the
  foreign keys of a row that is inserted are taken to hold, as they do when the
  authenticated vendor and the parties of a stored offer are rows of the vendor
  table.
\<close>

record db =
  offers :: "string \<rightharpoonup> barterOffer"
  items :: "barterItem list"
  products :: "string \<rightharpoonup> product"
  vendors :: "string \<rightharpoonup> vendor"

text \<open>
  A handler answers with an HTTP failure (the \<^verbatim>\<open>res.status(4xx)\<close> returns, and
  \<^verbatim>\<open>Status500\<close> for the \<^verbatim>\<open>catch\<close> block every handler ends with) or with a JSON
  body; it returns the database as it leaves it.
\<close>

datatype failure = Status400 string | Status403 string | Status404 string | Status500

section \<open>Request bodies and their zod schemas\<close>

text \<open>
  A body is modelled after JSON typing: a field that may be absent is an option,
  and \<^verbatim>\<open>cashGapDirection\<close> of the update body, which is
  \<^verbatim>\<open>optional().nullable()\<close>, is an option of an option (\<open>None\<close> absent,
  \<open>Some None\<close> the JSON null).  Each schema function returns the parsed data,
  with defaults filled in, or \<open>None\<close> when \<^verbatim>\<open>safeParse\<close> fails.
\<close>

record itemBody =
  b_productId :: string
  b_quantity :: int
  b_isOffered :: bool

definition barterItemSchema :: "itemBody \<Rightarrow> bool" where
  "barterItemSchema i = (1 \<le> length (b_productId i) \<and> 1 \<le> b_quantity i)"

record createBody =
  c_recipientVendorId :: string
  c_items :: "itemBody list"
  c_cashGapCents :: "int option"
  c_cashGapDirection :: "cashGapDirection option"
  c_message :: "string option"

record createData =
  cd_recipientVendorId :: string
  cd_items :: "itemBody list"
  cd_cashGapCents :: int
  cd_cashGapDirection :: "cashGapDirection option"
  cd_message :: "string option"

definition createOfferSchema :: "createBody \<Rightarrow> createData option" where
  "createOfferSchema b =
     (let cents = (case c_cashGapCents b of None \<Rightarrow> 0 | Some c \<Rightarrow> c) in
      if 1 \<le> length (c_recipientVendorId b)
         \<and> 1 \<le> length (c_items b) \<and> list_all barterItemSchema (c_items b)
         \<and> 0 \<le> cents
      then Some \<lparr>cd_recipientVendorId = c_recipientVendorId b, cd_items = c_items b,
                 cd_cashGapCents = cents, cd_cashGapDirection = c_cashGapDirection b,
                 cd_message = c_message b\<rparr>
      else None)"

record updateBody =
  u_items :: "itemBody list option"
  u_cashGapCents :: "int option"
  u_cashGapDirection :: "cashGapDirection option option"
  u_message :: "string option"

definition updateOfferSchema :: "updateBody \<Rightarrow> updateBody option" where
  "updateOfferSchema b =
     (if (case u_items b of None \<Rightarrow> True
          | Some its \<Rightarrow> 1 \<le> length its \<and> list_all barterItemSchema its)
         \<and> (case u_cashGapCents b of None \<Rightarrow> True | Some c \<Rightarrow> 0 \<le> c)
      then Some b else None)"

record counterBody =
  k_items :: "itemBody list"
  k_cashGapCents :: "int option"
  k_cashGapDirection :: "cashGapDirection option"
  k_message :: "string option"

record counterData =
  kd_items :: "itemBody list"
  kd_cashGapCents :: int
  kd_cashGapDirection :: "cashGapDirection option"
  kd_message :: "string option"

definition counterOfferSchema :: "counterBody \<Rightarrow> counterData option" where
  "counterOfferSchema b =
     (let cents = (case k_cashGapCents b of None \<Rightarrow> 0 | Some c \<Rightarrow> c) in
      if 1 \<le> length (k_items b) \<and> list_all barterItemSchema (k_items b) \<and> 0 \<le> cents
      then Some \<lparr>kd_items = k_items b, kd_cashGapCents = cents,
                 kd_cashGapDirection = k_cashGapDirection b, kd_message = k_message b\<rparr>
      else None)"

text \<open>The dispute body has the one field \<^verbatim>\<open>reason\<close>, a string of length at least 1.\<close>

definition disputeSchema :: "string \<Rightarrow> string option" where
  "disputeSchema reason = (if 1 \<le> length reason then Some reason else None)"

record resolveBody =
  resolution :: string
  newStatus :: barterStatus

definition resolveDisputeSchema :: "resolveBody \<Rightarrow> resolveBody option" where
  "resolveDisputeSchema b =
     (if 1 \<le> length (resolution b) \<and> newStatus b \<in> set [CANCELLED, COMPLETED]
      then Some b else None)"

section \<open>Responses\<close>

text \<open>
  The JSON a successful handler sends: the offer row (\<open>OfferRow\<close>), the offer row
  with its items (create, which asks for \<^verbatim>\<open>include: { items: true }\<close>), or the
  projection of \<^verbatim>\<open>transformOffer\<close>.  The projection keeps the fields computed
  from the offer and its items; the rows joined in for display (the two vendors'
  names, the product of each item, the list of counter-offers) are passed
  through by the source unchanged and are left out.
\<close>

record itemView =
  iv_productId :: string
  iv_quantity :: int
  iv_valueCents :: int
  iv_totalCents :: int

record offerView =
  v_id :: string
  v_status :: barterStatus
  v_isInitiator :: bool
  v_offeredItems :: "itemView list"
  v_requestedItems :: "itemView list"
  v_offeredTotalCents :: int
  v_requestedTotalCents :: int
  v_cashGapCents :: int
  v_cashGapDirection :: "cashGapDirection option"
  v_message :: "string option"
  v_counterOfMessage :: "string option"
  v_fulfilledByInitiator :: bool
  v_fulfilledByRecipient :: bool
  v_disputeReason :: "string option"
  v_disputeResolution :: "string option"
  v_parentOfferId :: "string option"

datatype response =
  OfferRow string barterOffer
  | OfferWithItems string barterOffer "barterItem list"
  | OfferProjection offerView

type_synonym reply = "(failure + response) \<times> db"

section \<open>Fulfilment\<close>

text \<open>\<^verbatim>\<open>POST /offers/:id/fulfill\<close>, lines 784 to 863 of \<^verbatim>\<open>vendor-barter.routes.ts\<close>.\<close>

definition fulfillOffer :: "db \<Rightarrow> string \<Rightarrow> string \<Rightarrow> reply" where
  "fulfillOffer d vendorId' offerId' =
     (case offers d offerId' of
        None \<Rightarrow> (Inl (Status404 ''Offer not found''), d)
      | Some offer \<Rightarrow>
          (let isInitiator = (initiatorVendorId offer = vendorId');
               isRecipient = (recipientVendorId offer = vendorId') in
           if \<not> isInitiator \<and> \<not> isRecipient
           then (Inl (Status403 ''You are not part of this offer''), d)
           else if status offer \<noteq> ACCEPTED \<and> status offer \<noteq> IN_PROGRESS
           then (Inl (Status400 ''Only accepted or in-progress offers can be fulfilled''), d)
           else if (if isInitiator then fulfilledByInitiator offer
                    else fulfilledByRecipient offer)
           then (Inl (Status400 ''You have already marked your side as fulfilled''), d)
           else
             (let flagged = (if isInitiator then offer\<lparr>fulfilledByInitiator := True\<rparr>
                             else offer\<lparr>fulfilledByRecipient := True\<rparr>);
                  willBeComplete = ((isInitiator \<and> fulfilledByRecipient offer)
                                    \<or> (isRecipient \<and> fulfilledByInitiator offer));
                  updatedOffer = (if willBeComplete then flagged\<lparr>status := COMPLETED\<rparr>
                                  else if status offer = ACCEPTED
                                  then flagged\<lparr>status := IN_PROGRESS\<rparr>
                                  else flagged)
              in (Inr (OfferRow offerId' updatedOffer),
                  d\<lparr>offers := (offers d)(offerId' \<mapsto> updatedOffer)\<rparr>))))"


section \<open>Items: validation and value snapshot\<close>

text \<open>
  The loop \<^verbatim>\<open>for (const item of items)\<close> of \<^verbatim>\<open>POST /offers\<close> (lines 341 to 372):
  the first item that fails a check ends the handler with that answer.
\<close>

fun validateItems ::
  "(string \<rightharpoonup> product) \<Rightarrow> string \<Rightarrow> string \<Rightarrow> itemBody list \<Rightarrow> failure option" where
  "validateItems productMap initiatorVendorId' recipientVendorId' [] = None"
| "validateItems productMap initiatorVendorId' recipientVendorId' (item # rest) =
     (case productMap (b_productId item) of
        None \<Rightarrow> Some (Status400 (''Product '' @ b_productId item @ '' not found''))
      | Some p \<Rightarrow>
          if isDeleted p \<or> \<not> isAvailable p
          then Some (Status400 (''Product '' @ b_productId item @ '' is not available''))
          else if b_isOffered item \<and> vendorId p \<noteq> initiatorVendorId'
          then Some (Status400 ''You can only offer your own products'')
          else if \<not> b_isOffered item \<and> vendorId p \<noteq> recipientVendorId'
          then Some (Status400 ''You can only request products from the recipient vendor'')
          else validateItems productMap initiatorVendorId' recipientVendorId' rest)"

text \<open>
  The item rows built by \<^verbatim>\<open>items.map((item) => ({ ..., valueCents:
  productMap.get(item.productId)!.priceUsdCents, ... }))\<close>.  Where the map has no
  entry the property read on \<^verbatim>\<open>undefined\<close> throws a TypeError: the result \<open>None\<close>.
\<close>

fun itemRows :: "(string \<rightharpoonup> product) \<Rightarrow> string \<Rightarrow> itemBody list \<Rightarrow> barterItem list option" where
  "itemRows productMap offerId' [] = Some []"
| "itemRows productMap offerId' (item # rest) =
     (case productMap (b_productId item) of
        None \<Rightarrow> None
      | Some p \<Rightarrow>
          (case itemRows productMap offerId' rest of
             None \<Rightarrow> None
           | Some rows \<Rightarrow>
               Some (\<lparr>offerId = offerId', productId = b_productId item,
                      quantity = b_quantity item, valueCents = priceUsdCents p,
                      isOffered = b_isOffered item\<rparr> # rows)))"

text \<open>
  \<^verbatim>\<open>new Map(products.map((p) => [p.id, p]))\<close> over the rows that
  \<^verbatim>\<open>findMany({ where: { id: { in: productIds } } })\<close> returns: the product table
  restricted to the ids of the submitted items.
\<close>

definition productMapOf :: "db \<Rightarrow> itemBody list \<Rightarrow> (string \<rightharpoonup> product)" where
  "productMapOf d its = products d |` set (map b_productId its)"

section \<open>Creating, updating and sending an offer\<close>

text \<open>
  \<^verbatim>\<open>POST /offers\<close>, lines 297 to 406.  The key of the new row is generated by the
  client library; it is the parameter \<open>newId\<close>, and a key already in the table
  violates the primary key, which the \<^verbatim>\<open>catch\<close> block answers with 500.
  \<open>createOfferData\<close> is the \<^verbatim>\<open>data\<close> object of \<^verbatim>\<open>prisma.barterOffer.create\<close>
  (lines 376 to 391) without its nested items; the columns it does not name take
  their defaults, \<^verbatim>\<open>false\<close> for the two flags and null for the rest.
\<close>

definition createOfferData :: "string \<Rightarrow> createData \<Rightarrow> barterOffer" where
  "createOfferData initiatorVendorId' parsed =
     \<lparr>initiatorVendorId = initiatorVendorId',
      recipientVendorId = cd_recipientVendorId parsed,
      status = DRAFT,
      cashGapCents = cd_cashGapCents parsed,
      cashGapDirection =
        (if 0 < cd_cashGapCents parsed then cd_cashGapDirection parsed else None),
      message = cd_message parsed,
      counterOfMessage = None,
      parentOfferId = None,
      fulfilledByInitiator = False,
      fulfilledByRecipient = False,
      disputeReason = None,
      disputeResolvedBy = None,
      disputeResolution = None\<rparr>"

definition createOffer :: "db \<Rightarrow> string \<Rightarrow> string \<Rightarrow> createBody \<Rightarrow> reply" where
  "createOffer d newId initiatorVendorId' body =
     (case createOfferSchema body of
        None \<Rightarrow> (Inl (Status400 ''Invalid input''), d)
      | Some parsed \<Rightarrow>
          if cd_recipientVendorId parsed = initiatorVendorId'
          then (Inl (Status400 ''Cannot create offer to yourself''), d)
          else if (case vendors d (cd_recipientVendorId parsed) of
                     None \<Rightarrow> True
                   | Some recipientVendor \<Rightarrow>
                       vendorStatus recipientVendor \<noteq> APPROVED \<or> \<not> isActive recipientVendor)
          then (Inl (Status400 ''Recipient vendor not found or not active''), d)
          else
            (let productMap = productMapOf d (cd_items parsed) in
             case validateItems productMap initiatorVendorId' (cd_recipientVendorId parsed)
                    (cd_items parsed) of
               Some f \<Rightarrow> (Inl f, d)
             | None \<Rightarrow>
                 (case itemRows productMap newId (cd_items parsed) of
                    None \<Rightarrow> (Inl Status500, d)
                  | Some rows \<Rightarrow>
                      if offers d newId \<noteq> None then (Inl Status500, d)
                      else
                        (let offer = createOfferData initiatorVendorId' parsed
                         in (Inr (OfferWithItems newId offer rows),
                             d\<lparr>offers := (offers d)(newId \<mapsto> offer),
                               items := items d @ rows\<rparr>)))))"

text \<open>
  \<^verbatim>\<open>PATCH /offers/:id\<close>, lines 409 to 492.  When items are submitted the rows are
  built first (a missing product throws before the transaction is issued), then
  the transaction deletes the offer's items and inserts the new ones; after it
  the offer row is updated with the fields that are not \<^verbatim>\<open>undefined\<close>.
\<close>

definition updateOffer :: "db \<Rightarrow> string \<Rightarrow> string \<Rightarrow> updateBody \<Rightarrow> reply" where
  "updateOffer d vendorId' offerId' body =
     (case offers d offerId' of
        None \<Rightarrow> (Inl (Status404 ''Offer not found''), d)
      | Some offer \<Rightarrow>
          if initiatorVendorId offer \<noteq> vendorId'
          then (Inl (Status403 ''Only the initiator can update the offer''), d)
          else if status offer \<noteq> DRAFT
          then (Inl (Status400 ''Only draft offers can be updated''), d)
          else
            (case updateOfferSchema body of
               None \<Rightarrow> (Inl (Status400 ''Invalid input''), d)
             | Some parsed \<Rightarrow>
                 (case (case u_items parsed of
                          None \<Rightarrow> Some (items d)
                        | Some its \<Rightarrow>
                            (case itemRows (productMapOf d its) offerId' its of
                               None \<Rightarrow> None
                             | Some rows \<Rightarrow>
                                 Some (filter (\<lambda>i. offerId i \<noteq> offerId') (items d) @ rows))) of
                    None \<Rightarrow> (Inl Status500, d)
                  | Some items' \<Rightarrow>
                      (let o1 = (case u_cashGapCents parsed of
                                   None \<Rightarrow> offer
                                 | Some c \<Rightarrow> offer\<lparr>cashGapCents := c\<rparr>);
                           o2 = (case u_cashGapDirection parsed of
                                   None \<Rightarrow> o1
                                 | Some dir \<Rightarrow> o1\<lparr>cashGapDirection := dir\<rparr>);
                           updatedOffer = (case u_message parsed of
                                             None \<Rightarrow> o2
                                           | Some m \<Rightarrow> o2\<lparr>message := Some m\<rparr>)
                       in (Inr (OfferRow offerId' updatedOffer),
                           d\<lparr>offers := (offers d)(offerId' \<mapsto> updatedOffer),
                             items := items'\<rparr>)))))"

text \<open>\<^verbatim>\<open>POST /offers/:id/send\<close>, lines 495 to 547.\<close>

definition sendOffer :: "db \<Rightarrow> string \<Rightarrow> string \<Rightarrow> reply" where
  "sendOffer d vendorId' offerId' =
     (case offers d offerId' of
        None \<Rightarrow> (Inl (Status404 ''Offer not found''), d)
      | Some offer \<Rightarrow>
          if initiatorVendorId offer \<noteq> vendorId'
          then (Inl (Status403 ''Only the initiator can send the offer''), d)
          else if status offer \<noteq> DRAFT
          then (Inl (Status400 ''Only draft offers can be sent''), d)
          else if length (filter (\<lambda>i. offerId i = offerId') (items d)) = 0
          then (Inl (Status400 ''Cannot send an empty offer''), d)
          else
            (let updatedOffer = offer\<lparr>status := SENT\<rparr>
             in (Inr (OfferRow offerId' updatedOffer),
                 d\<lparr>offers := (offers d)(offerId' \<mapsto> updatedOffer)\<rparr>)))"

section \<open>Accepting, rejecting, countering and cancelling\<close>

text \<open>\<^verbatim>\<open>POST /offers/:id/accept\<close>, lines 550 to 594.\<close>

definition acceptOffer :: "db \<Rightarrow> string \<Rightarrow> string \<Rightarrow> reply" where
  "acceptOffer d vendorId' offerId' =
     (case offers d offerId' of
        None \<Rightarrow> (Inl (Status404 ''Offer not found''), d)
      | Some offer \<Rightarrow>
          if recipientVendorId offer \<noteq> vendorId'
          then (Inl (Status403 ''Only the recipient can accept the offer''), d)
          else if status offer \<notin> set [SENT, COUNTERED]
          then (Inl (Status400 ''This offer cannot be accepted''), d)
          else
            (let updatedOffer = offer\<lparr>status := ACCEPTED\<rparr>
             in (Inr (OfferRow offerId' updatedOffer),
                 d\<lparr>offers := (offers d)(offerId' \<mapsto> updatedOffer)\<rparr>)))"

text \<open>\<^verbatim>\<open>POST /offers/:id/reject\<close>, lines 597 to 641.\<close>

definition rejectOffer :: "db \<Rightarrow> string \<Rightarrow> string \<Rightarrow> reply" where
  "rejectOffer d vendorId' offerId' =
     (case offers d offerId' of
        None \<Rightarrow> (Inl (Status404 ''Offer not found''), d)
      | Some offer \<Rightarrow>
          if recipientVendorId offer \<noteq> vendorId'
          then (Inl (Status403 ''Only the recipient can reject the offer''), d)
          else if status offer \<notin> set [SENT, COUNTERED]
          then (Inl (Status400 ''This offer cannot be rejected''), d)
          else
            (let updatedOffer = offer\<lparr>status := REJECTED\<rparr>
             in (Inr (OfferRow offerId' updatedOffer),
                 d\<lparr>offers := (offers d)(offerId' \<mapsto> updatedOffer)\<rparr>)))"

text \<open>
  \<^verbatim>\<open>POST /offers/:id/counter\<close>, lines 644 to 734.  The two writes run in one
  interactive transaction: the update of the original offer, then the insert of
  the counter-offer with its items.  The item rows are built as the argument of
  the insert, after the update was issued; a TypeError there, or a key that is
  already taken, aborts the transaction, which rolls the update back, and the
  \<^verbatim>\<open>catch\<close> block answers 500.  \<open>counterOfferData\<close> is the \<^verbatim>\<open>data\<close> object of
  \<^verbatim>\<open>tx.barterOffer.create\<close> (lines 704 to 721) without its nested items.
\<close>

definition counterOfferData ::
  "string \<Rightarrow> barterOffer \<Rightarrow> string \<Rightarrow> counterData \<Rightarrow> barterOffer" where
  "counterOfferData vendorId' originalOffer offerId' parsed =
     \<lparr>initiatorVendorId = vendorId',
      recipientVendorId = initiatorVendorId originalOffer,
      status = SENT,
      cashGapCents = kd_cashGapCents parsed,
      cashGapDirection =
        (if 0 < kd_cashGapCents parsed then kd_cashGapDirection parsed else None),
      message = kd_message parsed,
      counterOfMessage = Some (''Counter-offer to offer '' @ offerId'),
      parentOfferId = Some offerId',
      fulfilledByInitiator = False,
      fulfilledByRecipient = False,
      disputeReason = None,
      disputeResolvedBy = None,
      disputeResolution = None\<rparr>"

definition counterOffer :: "db \<Rightarrow> string \<Rightarrow> string \<Rightarrow> string \<Rightarrow> counterBody \<Rightarrow> reply" where
  "counterOffer d newId vendorId' offerId' body =
     (case offers d offerId' of
        None \<Rightarrow> (Inl (Status404 ''Offer not found''), d)
      | Some originalOffer \<Rightarrow>
          if recipientVendorId originalOffer \<noteq> vendorId'
          then (Inl (Status403 ''Only the recipient can counter the offer''), d)
          else if status originalOffer \<notin> set [SENT, COUNTERED]
          then (Inl (Status400 ''This offer cannot be countered''), d)
          else
            (case counterOfferSchema body of
               None \<Rightarrow> (Inl (Status400 ''Invalid input''), d)
             | Some parsed \<Rightarrow>
                 (let productMap = productMapOf d (kd_items parsed);
                      tx = d\<lparr>offers := (offers d)(offerId' \<mapsto> originalOffer\<lparr>status := COUNTERED\<rparr>)\<rparr>
                  in case itemRows productMap newId (kd_items parsed) of
                       None \<Rightarrow> (Inl Status500, d)
                     | Some rows \<Rightarrow>
                         if offers tx newId \<noteq> None then (Inl Status500, d)
                         else
                           (let counterOffer' =
                              counterOfferData vendorId' originalOffer offerId' parsed
                            in (Inr (OfferRow newId counterOffer'),
                                tx\<lparr>offers := (offers tx)(newId \<mapsto> counterOffer'),
                                   items := items tx @ rows\<rparr>)))))"

text \<open>\<^verbatim>\<open>POST /offers/:id/cancel\<close>, lines 737 to 781.\<close>

definition cancelOffer :: "db \<Rightarrow> string \<Rightarrow> string \<Rightarrow> reply" where
  "cancelOffer d vendorId' offerId' =
     (case offers d offerId' of
        None \<Rightarrow> (Inl (Status404 ''Offer not found''), d)
      | Some offer \<Rightarrow>
          if initiatorVendorId offer \<noteq> vendorId'
          then (Inl (Status403 ''Only the initiator can cancel the offer''), d)
          else if status offer \<notin> set [DRAFT, SENT]
          then (Inl (Status400 ''This offer cannot be cancelled''), d)
          else
            (let updatedOffer = offer\<lparr>status := CANCELLED\<rparr>
             in (Inr (OfferRow offerId' updatedOffer),
                 d\<lparr>offers := (offers d)(offerId' \<mapsto> updatedOffer)\<rparr>)))"

section \<open>Disputes\<close>

text \<open>\<^verbatim>\<open>POST /offers/:id/dispute\<close>, lines 866 to 924: the body is parsed first.\<close>

definition disputeOffer :: "db \<Rightarrow> string \<Rightarrow> string \<Rightarrow> string \<Rightarrow> reply" where
  "disputeOffer d vendorId' offerId' body =
     (case disputeSchema body of
        None \<Rightarrow> (Inl (Status400 ''Invalid input''), d)
      | Some reason \<Rightarrow>
          (case offers d offerId' of
             None \<Rightarrow> (Inl (Status404 ''Offer not found''), d)
           | Some offer \<Rightarrow>
               if initiatorVendorId offer \<noteq> vendorId' \<and> recipientVendorId offer \<noteq> vendorId'
               then (Inl (Status403 ''You are not part of this offer''), d)
               else if status offer \<notin> set [ACCEPTED, IN_PROGRESS]
               then (Inl (Status400 ''Only accepted or in-progress offers can be disputed''), d)
               else
                 (let updatedOffer = offer\<lparr>status := DISPUTED, disputeReason := Some reason\<rparr>
                  in (Inr (OfferRow offerId' updatedOffer),
                      d\<lparr>offers := (offers d)(offerId' \<mapsto> updatedOffer)\<rparr>))))"

text \<open>
  \<^verbatim>\<open>PATCH /:id/resolve\<close> of \<^verbatim>\<open>admin-barter.routes.ts\<close>, lines 222 to 274.  The
  middleware \<^verbatim>\<open>requireAdminAuth\<close> has answered 401 when \<^verbatim>\<open>req.user\<close> is missing,
  so \<^verbatim>\<open>req.user?.id\<close> is a string here.
\<close>

definition resolveDispute :: "db \<Rightarrow> string \<Rightarrow> string \<Rightarrow> resolveBody \<Rightarrow> reply" where
  "resolveDispute d adminId offerId' body =
     (case resolveDisputeSchema body of
        None \<Rightarrow> (Inl (Status400 ''Invalid input''), d)
      | Some parsed \<Rightarrow>
          (case offers d offerId' of
             None \<Rightarrow> (Inl (Status404 ''Offer not found''), d)
           | Some offer \<Rightarrow>
               if status offer \<noteq> DISPUTED
               then (Inl (Status400 ''Only disputed offers can be resolved''), d)
               else
                 (let updatedOffer = offer\<lparr>status := newStatus parsed,
                                           disputeResolvedBy := Some adminId,
                                           disputeResolution := Some (resolution parsed)\<rparr>
                  in (Inr (OfferRow offerId' updatedOffer),
                      d\<lparr>offers := (offers d)(offerId' \<mapsto> updatedOffer)\<rparr>))))"

text \<open>
  \<^verbatim>\<open>PATCH /:id/status\<close> of \<^verbatim>\<open>admin-barter.routes.ts\<close>, lines 277 to 317, the
  admin override: the schema admits each of the nine states, and the handler
  writes the submitted one whatever the current state is.
\<close>

definition forceStatus :: "db \<Rightarrow> string \<Rightarrow> barterStatus \<Rightarrow> reply" where
  "forceStatus d offerId' status' =
     (case offers d offerId' of
        None \<Rightarrow> (Inl (Status404 ''Offer not found''), d)
      | Some offer \<Rightarrow>
          (let updatedOffer = offer\<lparr>status := status'\<rparr>
           in (Inr (OfferRow offerId' updatedOffer),
               d\<lparr>offers := (offers d)(offerId' \<mapsto> updatedOffer)\<rparr>)))"

section \<open>The offer projection\<close>



text \<open>
  JavaScript numbers.  The operator \<^verbatim>\<open>*\<close> and \<^verbatim>\<open>+\<close> of the source work on IEEE
  754 doubles: the exact result is rounded to the nearest double, a tie going
  to the double with the even significand.  The operands here are integers
  read from \<^verbatim>\<open>INTEGER\<close> columns, and every double of absolute value \<open>2^52\<close> or
  more is an integer, so all values that arise are integers and a number is
  modelled as the \<open>int\<close> it equals.  For \<open>a = \<bar>x\<bar>\<close>, \<open>doubleExponent a\<close> is the
  number of low bits that do not fit the 53-bit significand, and \<open>roundDouble\<close>
  rounds them away.  With column values a product is below \<open>2^62\<close>, far from the
  largest double, so the infinities of the number type do not arise and are not
  modelled; the sign of a zero is not modelled either (JSON prints both zeros
  as 0).
\<close>

function doubleExponent :: "int \<Rightarrow> nat" where
  "doubleExponent a = (if a < 2 ^ 53 then 0 else Suc (doubleExponent (a div 2)))"
  by pat_completeness auto
termination
  by (relation "measure nat") auto

declare doubleExponent.simps [simp del]

definition roundDouble :: "int \<Rightarrow> int" where
  "roundDouble x =
     (let a = \<bar>x\<bar>;
          e = doubleExponent a;
          q = a div 2 ^ e;
          r = a mod 2 ^ e;
          m = (if 2 ^ e < 2 * r \<or> (2 * r = 2 ^ e \<and> odd q) then q + 1 else q)
      in sgn x * (m * 2 ^ e))"






section \<open>The routers\<close>

text \<open>
  A request to the engine: the route with the authenticated identity, the
  \<^verbatim>\<open>:id\<close> parameter and the body.  \<open>Create\<close> and \<open>Counter\<close> carry first the key
  the client library generates for the row they insert.
\<close>

datatype request =
  Create string string createBody
  | Update string string updateBody
  | Send string string
  | Accept string string
  | Reject string string
  | Counter string string string counterBody
  | Cancel string string
  | Fulfill string string
  | Dispute string string string
  | Resolve string string resolveBody
  | ForceStatus string barterStatus

fun route :: "db \<Rightarrow> request \<Rightarrow> reply" where
  "route d (Create newId v body) = createOffer d newId v body"
| "route d (Update v i body) = updateOffer d v i body"
| "route d (Send v i) = sendOffer d v i"
| "route d (Accept v i) = acceptOffer d v i"
| "route d (Reject v i) = rejectOffer d v i"
| "route d (Counter newId v i body) = counterOffer d newId v i body"
| "route d (Cancel v i) = cancelOffer d v i"
| "route d (Fulfill v i) = fulfillOffer d v i"
| "route d (Dispute v i body) = disputeOffer d v i body"
| "route d (Resolve admin i body) = resolveDispute d admin i body"
| "route d (ForceStatus i st) = forceStatus d i st"

text \<open>The database after a request, and after the same request sent \<open>n\<close> times.\<close>

definition after :: "request \<Rightarrow> db \<Rightarrow> db" where
  "after r d = snd (route d r)"

definition retried :: "nat \<Rightarrow> request \<Rightarrow> db \<Rightarrow> db" where
  "retried n r d = (after r ^^ n) d"

section \<open>The transition table of the specification\<close>

text \<open>
  The seven party actions of the table in section 4.1 of the specification, and
  the states from which the table lets each of them start.  This definition
  follows the table, not the handlers; the handlers are compared with it.
\<close>

datatype partyAction =
  SendAction | AcceptAction | RejectAction | CounterAction | CancelAction
  | FulfillAction | DisputeAction

fun spec_table_permits :: "partyAction \<Rightarrow> barterStatus \<Rightarrow> bool" where
  "spec_table_permits SendAction st = (st = DRAFT)"
| "spec_table_permits AcceptAction st = (st = SENT \<or> st = COUNTERED)"
| "spec_table_permits RejectAction st = (st = SENT \<or> st = COUNTERED)"
| "spec_table_permits CounterAction st = (st = SENT \<or> st = COUNTERED)"
| "spec_table_permits CancelAction st = (st = DRAFT \<or> st = SENT)"
| "spec_table_permits FulfillAction st = (st = ACCEPTED \<or> st = IN_PROGRESS)"
| "spec_table_permits DisputeAction st = (st = ACCEPTED \<or> st = IN_PROGRESS)"

text \<open>
  The fulfilment rule in the words of the specification: the state after a
  party's flag is set is COMPLETED if the other party's flag was already true,
  IN_PROGRESS if the prior state was ACCEPTED, and the prior state otherwise.
\<close>

definition spec_fulfilled_state :: "barterStatus \<Rightarrow> bool \<Rightarrow> barterStatus" where
  "spec_fulfilled_state prior otherFlag =
     (if otherFlag then COMPLETED
      else if prior = ACCEPTED then IN_PROGRESS
      else prior)"

text \<open>The party action a request performs, if any, and the offer it addresses.\<close>

fun partyActionOf :: "request \<Rightarrow> partyAction option" where
  "partyActionOf (Send v i) = Some SendAction"
| "partyActionOf (Accept v i) = Some AcceptAction"
| "partyActionOf (Reject v i) = Some RejectAction"
| "partyActionOf (Counter newId v i body) = Some CounterAction"
| "partyActionOf (Cancel v i) = Some CancelAction"
| "partyActionOf (Fulfill v i) = Some FulfillAction"
| "partyActionOf (Dispute v i body) = Some DisputeAction"
| "partyActionOf _ = None"

fun addressedOffer :: "request \<Rightarrow> string option" where
  "addressedOffer (Create newId v body) = None"
| "addressedOffer (Update v i body) = Some i"
| "addressedOffer (Send v i) = Some i"
| "addressedOffer (Accept v i) = Some i"
| "addressedOffer (Reject v i) = Some i"
| "addressedOffer (Counter newId v i body) = Some i"
| "addressedOffer (Cancel v i) = Some i"
| "addressedOffer (Fulfill v i) = Some i"
| "addressedOffer (Dispute v i body) = Some i"
| "addressedOffer (Resolve admin i body) = Some i"
| "addressedOffer (ForceStatus i st) = Some i"

fun isForceStatus :: "request \<Rightarrow> bool" where
  "isForceStatus (ForceStatus i st) = True"
| "isForceStatus _ = False"

section \<open>A sample database\<close>

text \<open>
  Two approved vendors \<open>A\<close> and \<open>B\<close> with one product each, a third vendor \<open>C\<close>
  with one product, a product of \<open>B\<close> that is soft-deleted, and one offer \<open>o1\<close>
  from \<open>A\<close> to \<open>B\<close> with an offered item worth 1000 and a requested item worth
  1500.  The offer row itself is a parameter.
\<close>

definition sampleVendors :: "string \<rightharpoonup> vendor" where
  "sampleVendors =
     [''A'' \<mapsto> \<lparr>vendorStatus = APPROVED, isActive = True\<rparr>,
      ''B'' \<mapsto> \<lparr>vendorStatus = APPROVED, isActive = True\<rparr>,
      ''C'' \<mapsto> \<lparr>vendorStatus = APPROVED, isActive = True\<rparr>]"

definition sampleProducts :: "string \<rightharpoonup> product" where
  "sampleProducts =
     [''pA'' \<mapsto> \<lparr>vendorId = ''A'', priceUsdCents = 1000, isAvailable = True, isDeleted = False\<rparr>,
      ''pB'' \<mapsto> \<lparr>vendorId = ''B'', priceUsdCents = 1500, isAvailable = True, isDeleted = False\<rparr>,
      ''pC'' \<mapsto> \<lparr>vendorId = ''C'', priceUsdCents = 700, isAvailable = True, isDeleted = False\<rparr>,
      ''pX'' \<mapsto> \<lparr>vendorId = ''B'', priceUsdCents = 300, isAvailable = True, isDeleted = True\<rparr>]"

definition sampleItems :: "barterItem list" where
  "sampleItems =
     [\<lparr>offerId = ''o1'', productId = ''pA'', quantity = 1, valueCents = 1000, isOffered = True\<rparr>,
      \<lparr>offerId = ''o1'', productId = ''pB'', quantity = 1, valueCents = 1500, isOffered = False\<rparr>]"

definition sampleOffer :: "barterStatus \<Rightarrow> bool \<Rightarrow> bool \<Rightarrow> barterOffer" where
  "sampleOffer st fi fr =
     \<lparr>initiatorVendorId = ''A'', recipientVendorId = ''B'', status = st,
      cashGapCents = 500, cashGapDirection = Some RECIPIENT_PAYS,
      message = None, counterOfMessage = None, parentOfferId = None,
      fulfilledByInitiator = fi, fulfilledByRecipient = fr,
      disputeReason = None, disputeResolvedBy = None, disputeResolution = None\<rparr>"

definition sampleDb :: "barterOffer \<Rightarrow> db" where
  "sampleDb offer =
     \<lparr>offers = [''o1'' \<mapsto> offer], items = sampleItems,
      products = sampleProducts, vendors = sampleVendors\<rparr>"

text \<open>
  A counter-offer body: the recipient \<open>B\<close> offers two of its own product and asks
  for three of \<open>A\<close>'s, with no cash gap.
\<close>

definition sampleCounter :: counterBody where
  "sampleCounter =
     \<lparr>k_items = [\<lparr>b_productId = ''pB'', b_quantity = 2, b_isOffered = True\<rparr>,
                 \<lparr>b_productId = ''pA'', b_quantity = 3, b_isOffered = False\<rparr>],
      k_cashGapCents = None, k_cashGapDirection = None, k_message = None\<rparr>"

text \<open>
  Request bodies over the sample database: an offered item that names the
  product of the third vendor \<open>C\<close>, one that names the soft-deleted product of
  \<open>B\<close>, one that names a product that does not exist, and bodies that carry
  one item or one field.
\<close>

definition foreignItem :: itemBody where
  "foreignItem = \<lparr>b_productId = ''pC'', b_quantity = 1, b_isOffered = True\<rparr>"

definition deletedItem :: itemBody where
  "deletedItem = \<lparr>b_productId = ''pX'', b_quantity = 1, b_isOffered = True\<rparr>"

definition unknownItem :: itemBody where
  "unknownItem = \<lparr>b_productId = ''pZ'', b_quantity = 1, b_isOffered = True\<rparr>"

definition counterWith :: "itemBody \<Rightarrow> counterBody" where
  "counterWith it =
     \<lparr>k_items = [it], k_cashGapCents = None, k_cashGapDirection = None, k_message = None\<rparr>"

definition createWith :: "string \<Rightarrow> itemBody \<Rightarrow> int option \<Rightarrow> createBody" where
  "createWith recipient it cents =
     \<lparr>c_recipientVendorId = recipient, c_items = [it], c_cashGapCents = cents,
      c_cashGapDirection = None, c_message = None\<rparr>"

definition updateWith :: "itemBody list option \<Rightarrow> int option \<Rightarrow> updateBody" where
  "updateWith its cents =
     \<lparr>u_items = its, u_cashGapCents = cents, u_cashGapDirection = None, u_message = None\<rparr>"




text \<open>The invariant of the data model that the two parties of an offer differ.\<close>

definition partiesDiffer :: "barterOffer \<Rightarrow> bool" where
  "partiesDiffer offer = (initiatorVendorId offer \<noteq> recipientVendorId offer)"

section \<open>Fulfilment converges\<close>

text \<open>
  Claim C1.  For an offer in state ACCEPTED or IN_PROGRESS and a fulfil request
  of a party \<open>p\<close> of the offer (the handler takes \<open>p\<close> for the initiator when
  its id is the initiator's, for the recipient otherwise): if the party's own
  flag is already true the request is rejected and the database is unchanged;
  otherwise the stored offer becomes the old one with the party's flag set and
  its state COMPLETED if the other party's flag was true, IN_PROGRESS if the
  prior state was ACCEPTED and the other flag false, and the prior state, which
  then is IN_PROGRESS, otherwise.  Nothing else in the database changes.
\<close>

theorem fulfill_convergence:
  assumes "offers d i = Some offer"
    and "status offer = ACCEPTED \<or> status offer = IN_PROGRESS"
    and "p = initiatorVendorId offer \<or> p = recipientVendorId offer"
  shows "let asInitiator = (p = initiatorVendorId offer);
             own = (if asInitiator then fulfilledByInitiator offer else fulfilledByRecipient offer);
             other = (if asInitiator then fulfilledByRecipient offer else fulfilledByInitiator offer);
             flagged = (if asInitiator then offer\<lparr>fulfilledByInitiator := True\<rparr>
                        else offer\<lparr>fulfilledByRecipient := True\<rparr>);
             offer' = flagged\<lparr>status := spec_fulfilled_state (status offer) other\<rparr>
         in (own \<longrightarrow> (\<exists>e. fulfillOffer d p i = (Inl e, d)))
            \<and> (\<not> own \<longrightarrow>
                 fulfillOffer d p i
                   = (Inr (OfferRow i offer'), d\<lparr>offers := (offers d)(i \<mapsto> offer')\<rparr>))
            \<and> spec_fulfilled_state (status offer) other \<in> {COMPLETED, IN_PROGRESS}"
  using assms
  by (auto simp: fulfillOffer_def spec_fulfilled_state_def Let_def)

theorem fulfill_convergence_witness:
  "fulfillOffer (sampleDb (sampleOffer ACCEPTED False False)) ''A'' ''o1''
     = (Inr (OfferRow ''o1'' (sampleOffer IN_PROGRESS True False)),
        sampleDb (sampleOffer IN_PROGRESS True False))
   \<and> fulfillOffer (sampleDb (sampleOffer IN_PROGRESS True False)) ''B'' ''o1''
     = (Inr (OfferRow ''o1'' (sampleOffer COMPLETED True True)),
        sampleDb (sampleOffer COMPLETED True True))
   \<and> (\<exists>e. fulfillOffer (sampleDb (sampleOffer IN_PROGRESS True False)) ''A'' ''o1''
     = (Inl e, sampleDb (sampleOffer IN_PROGRESS True False)))"
  using fulfill_convergence [of "sampleDb (sampleOffer ACCEPTED False False)" "''o1''"
           "sampleOffer ACCEPTED False False" "''A''"]
        fulfill_convergence [of "sampleDb (sampleOffer IN_PROGRESS True False)" "''o1''"
           "sampleOffer IN_PROGRESS True False" "''B''"]
        fulfill_convergence [of "sampleDb (sampleOffer IN_PROGRESS True False)" "''o1''"
           "sampleOffer IN_PROGRESS True False" "''A''"]
  by (simp add: sampleDb_def sampleOffer_def spec_fulfilled_state_def Let_def)

text \<open>
  Claim C8.  For an offer in state ACCEPTED with both flags false (and, as the
  data model requires and create and counter establish, two different
  parties), the initiator's fulfil followed by the recipient's and the
  recipient's followed by the initiator's all succeed and leave the same
  database: the offer has both flags true and state COMPLETED.
\<close>

theorem fulfill_commutes:
  assumes "offers d i = Some offer"
    and "status offer = ACCEPTED"
    and "\<not> fulfilledByInitiator offer" and "\<not> fulfilledByRecipient offer"
    and "initiatorVendorId offer \<noteq> recipientVendorId offer"
  shows "let a = initiatorVendorId offer; b = recipientVendorId offer;
             final = offer\<lparr>fulfilledByInitiator := True, fulfilledByRecipient := True,
                           status := COMPLETED\<rparr>;
             d' = d\<lparr>offers := (offers d)(i \<mapsto> final)\<rparr>
         in fulfillOffer (after (Fulfill a i) d) b i = (Inr (OfferRow i final), d')
            \<and> fulfillOffer (after (Fulfill b i) d) a i = (Inr (OfferRow i final), d')
            \<and> (\<exists>x. fst (fulfillOffer d a i) = Inr x)
            \<and> (\<exists>y. fst (fulfillOffer d b i) = Inr y)"
  using assms
  by (cases offer) (auto simp: fulfillOffer_def after_def Let_def)

theorem fulfill_commutes_witness:
  "fulfillOffer (after (Fulfill ''A'' ''o1'') (sampleDb (sampleOffer ACCEPTED False False)))
       ''B'' ''o1''
     = (Inr (OfferRow ''o1'' (sampleOffer COMPLETED True True)),
        sampleDb (sampleOffer COMPLETED True True))
   \<and> fulfillOffer (after (Fulfill ''B'' ''o1'') (sampleDb (sampleOffer ACCEPTED False False)))
       ''A'' ''o1''
     = (Inr (OfferRow ''o1'' (sampleOffer COMPLETED True True)),
        sampleDb (sampleOffer COMPLETED True True))"
  using fulfill_commutes [of "sampleDb (sampleOffer ACCEPTED False False)" "''o1''"
           "sampleOffer ACCEPTED False False"]
  by (simp add: sampleDb_def sampleOffer_def Let_def)

section \<open>The projection is a read\<close>

text \<open>
  Rounding to a double: values of absolute value up to \<open>2^53\<close> are kept; any
  other value moves to a multiple of the spacing \<open>2^e\<close> of the doubles around
  it, by at most half that spacing, and the significand fits 53 bits.
\<close>

lemma doubleExponent_small: "a < 9007199254740992 \<Longrightarrow> doubleExponent a = 0"
  by (simp add: doubleExponent.simps)

lemma doubleExponent_large:
  "\<not> a < 9007199254740992 \<Longrightarrow> doubleExponent a = Suc (doubleExponent (a div 2))"
  by (simp add: doubleExponent.simps [of a])

lemma doubleExponent_fits: "a div 2 ^ doubleExponent a < 2 ^ 53"
proof (induction a rule: doubleExponent.induct)
  case (1 a)
  show ?case
  proof (cases "a < 2 ^ 53")
    case True
    then show ?thesis by (simp add: doubleExponent_small)
  next
    case False
    then have "a div 2 ^ doubleExponent a = (a div 2) div 2 ^ doubleExponent (a div 2)"
      by (simp add: doubleExponent_large zdiv_zmult2_eq)
    with 1 False show ?thesis by simp
  qed
qed


lemma roundDouble_nearest:
  "2 ^ doubleExponent \<bar>x\<bar> dvd roundDouble x
   \<and> 2 * \<bar>roundDouble x - x\<bar> \<le> 2 ^ doubleExponent \<bar>x\<bar>"
proof -
  define e where "e = doubleExponent \<bar>x\<bar>"
  define q where "q = \<bar>x\<bar> div 2 ^ e"
  define r where "r = \<bar>x\<bar> mod 2 ^ e"
  define m where "m = (if 2 ^ e < 2 * r \<or> (2 * r = 2 ^ e \<and> odd q) then q + 1 else q)"
  have val: "roundDouble x = sgn x * (m * 2 ^ e)"
    by (simp add: roundDouble_def Let_def e_def q_def r_def m_def)
  have split: "\<bar>x\<bar> = q * 2 ^ e + r"
    unfolding q_def r_def by (rule div_mult_mod_eq [symmetric])
  have r: "0 \<le> r" "r < 2 ^ e"
    by (simp_all add: r_def)
  have near: "2 * \<bar>m * 2 ^ e - \<bar>x\<bar>\<bar> \<le> 2 ^ e"
    using split r by (auto simp: m_def algebra_simps)
  have "roundDouble x - x = sgn x * (m * 2 ^ e) - sgn x * \<bar>x\<bar>"
    by (simp add: val mult_sgn_abs)
  then have "roundDouble x - x = sgn x * (m * 2 ^ e - \<bar>x\<bar>)"
    by (simp add: right_diff_distrib)
  then have "\<bar>roundDouble x - x\<bar> \<le> \<bar>m * 2 ^ e - \<bar>x\<bar>\<bar>"
    by (simp add: abs_mult abs_sgn_eq)
  then have "2 * \<bar>roundDouble x - x\<bar> \<le> 2 * \<bar>m * 2 ^ e - \<bar>x\<bar>\<bar>"
    by simp
  then have "2 * \<bar>roundDouble x - x\<bar> \<le> 2 ^ e"
    using near by (rule order_trans)
  moreover have "2 ^ e dvd roundDouble x"
    by (simp add: val)
  ultimately show ?thesis
    unfolding e_def by (rule conjI [rotated])
qed








section \<open>Resolving a dispute\<close>

text \<open>
  Claim C10.  When the arbiter resolves a DISPUTED offer (a resolution text of
  at least one character and a new status CANCELLED or COMPLETED), the stored
  offer is the old one with \<open>status\<close>, \<open>disputeResolvedBy\<close> and
  \<open>disputeResolution\<close> replaced: the parties, the cash gap and its direction,
  the two fulfilled flags, the parent offer and the dispute reason are
  unchanged, and so is the item table, hence every item's \<open>valueCents\<close> and
  \<open>quantity\<close>.
\<close>

theorem resolve_frame:
  assumes "offers d i = Some offer"
    and "status offer = DISPUTED"
    and "resolution body \<noteq> []"
    and "newStatus body = CANCELLED \<or> newStatus body = COMPLETED"
  shows "\<exists>offer'.
           resolveDispute d admin i body
             = (Inr (OfferRow i offer'), d\<lparr>offers := (offers d)(i \<mapsto> offer')\<rparr>)
           \<and> offer' = offer\<lparr>status := newStatus body, disputeResolvedBy := Some admin,
                             disputeResolution := Some (resolution body)\<rparr>
           \<and> initiatorVendorId offer' = initiatorVendorId offer
           \<and> recipientVendorId offer' = recipientVendorId offer
           \<and> cashGapCents offer' = cashGapCents offer
           \<and> cashGapDirection offer' = cashGapDirection offer
           \<and> fulfilledByInitiator offer' = fulfilledByInitiator offer
           \<and> fulfilledByRecipient offer' = fulfilledByRecipient offer
           \<and> parentOfferId offer' = parentOfferId offer
           \<and> disputeReason offer' = disputeReason offer
           \<and> message offer' = message offer
           \<and> counterOfMessage offer' = counterOfMessage offer
           \<and> items (snd (resolveDispute d admin i body)) = items d"
  using assms
  by (cases "resolution body") (auto simp: resolveDispute_def resolveDisputeSchema_def Let_def)

theorem resolve_frame_witness:
  "\<exists>offer'. resolveDispute (sampleDb (sampleOffer DISPUTED True False)) ''admin1'' ''o1''
        \<lparr>resolution = ''goods never shipped'', newStatus = CANCELLED\<rparr>
      = (Inr (OfferRow ''o1'' offer'),
         (sampleDb (sampleOffer DISPUTED True False))
           \<lparr>offers := (offers (sampleDb (sampleOffer DISPUTED True False)))(''o1'' \<mapsto> offer')\<rparr>)
    \<and> offer' = (sampleOffer CANCELLED True False)
         \<lparr>disputeResolvedBy := Some ''admin1'', disputeResolution := Some ''goods never shipped''\<rparr>"
  using resolve_frame [of "sampleDb (sampleOffer DISPUTED True False)" "''o1''"
     "sampleOffer DISPUTED True False"
     "\<lparr>resolution = ''goods never shipped'', newStatus = CANCELLED\<rparr>" "''admin1''"]
  by (simp add: sampleDb_def sampleOffer_def)

section \<open>Counter-offers\<close>

lemma itemRows_total:
  "(\<And>it. it \<in> set its \<Longrightarrow> pm (b_productId it) \<noteq> None)
     \<Longrightarrow> \<exists>rows. itemRows pm n its = Some rows"
  by (induction its) (auto split: option.splits)

lemma productMapOf_member:
  "it \<in> set its \<Longrightarrow> productMapOf d its (b_productId it) = products d (b_productId it)"
  by (simp add: productMapOf_def restrict_map_def)

lemma counterOffer_guard:
  "offers d i = Some offer \<Longrightarrow>
   recipientVendorId offer \<noteq> v \<or> (status offer \<noteq> SENT \<and> status offer \<noteq> COUNTERED) \<Longrightarrow>
   \<exists>e. counterOffer d newId v i body = (Inl e, d)"
  by (auto simp: counterOffer_def)

lemma counterOffer_outcome:
  "(\<exists>e. counterOffer d newId v i body = (Inl e, d))
   \<or> (\<exists>x d'. counterOffer d newId v i body = (Inr x, d'))"
  by (simp add: counterOffer_def Let_def split: option.split)

lemma counterOffer_failure_keeps_db:
  "fst (counterOffer d newId v i body) = Inl e \<Longrightarrow> snd (counterOffer d newId v i body) = d"
  using counterOffer_outcome [of d newId v i body] by auto

lemma counterOffer_success:
  assumes "offers d i = Some offer"
    and "status offer = SENT \<or> status offer = COUNTERED"
    and "recipientVendorId offer = v"
    and "counterOfferSchema body \<noteq> None"
    and "\<forall>it \<in> set (k_items body). products d (b_productId it) \<noteq> None"
    and "offers d newId = None"
  shows "\<exists>new rows.
           counterOffer d newId v i body
             = (Inr (OfferRow newId new),
                d\<lparr>offers := (offers d)(i \<mapsto> offer\<lparr>status := COUNTERED\<rparr>, newId \<mapsto> new),
                  items := items d @ rows\<rparr>)
           \<and> status new = SENT
           \<and> initiatorVendorId new = recipientVendorId offer
           \<and> recipientVendorId new = initiatorVendorId offer
           \<and> parentOfferId new = Some i"
proof -
  from assms(4) obtain parsed where parsed: "counterOfferSchema body = Some parsed"
    by auto
  then have its: "kd_items parsed = k_items body"
    by (auto simp: counterOfferSchema_def Let_def split: if_splits)
  have "\<And>it. it \<in> set (k_items body)
          \<Longrightarrow> productMapOf d (k_items body) (b_productId it) \<noteq> None"
    using assms(5) by (simp add: productMapOf_member)
  then obtain rows where rows:
    "itemRows (productMapOf d (k_items body)) newId (k_items body) = Some rows"
    using itemRows_total by blast
  have ne: "newId \<noteq> i" using assms(1,6) by auto
  have inlist: "status offer \<in> set [SENT, COUNTERED]" using assms(2) by auto
  let ?new = "counterOfferData v offer i parsed"
  have run: "counterOffer d newId v i body
      = (Inr (OfferRow newId ?new),
         d\<lparr>offers := (offers d)(i \<mapsto> offer\<lparr>status := COUNTERED\<rparr>, newId \<mapsto> ?new),
           items := items d @ rows\<rparr>)"
    unfolding counterOffer_def Let_def
    using assms(1,3,6) parsed its rows ne inlist
    by simp
  have fields: "status ?new = SENT \<and> initiatorVendorId ?new = recipientVendorId offer
      \<and> recipientVendorId ?new = initiatorVendorId offer \<and> parentOfferId ?new = Some i"
    using assms(3) by (simp add: counterOfferData_def)
  from run fields show ?thesis by blast
qed

text \<open>
  Claim C2.  For a stored offer: when its state is SENT or COUNTERED and the
  request comes from its recipient (with a body the schema accepts, items whose
  products exist, and a key for the new row that is not taken), the counter
  succeeds, and the database afterwards is the old one with the predecessor's
  state COUNTERED, one new offer in state SENT whose initiator is the
  predecessor's recipient, whose recipient is the predecessor's initiator and
  whose parent is the predecessor, and the new offer's items.  When the request
  comes from anyone but the recipient, or the state is neither SENT nor
  COUNTERED, it is rejected and the database is unchanged.  The two writes are
  atomic: whenever a counter fails, for whatever reason, the database is
  unchanged.
\<close>

theorem counter_swaps_roles:
  assumes "offers d i = Some offer"
  shows "((status offer = SENT \<or> status offer = COUNTERED) \<and> recipientVendorId offer = v
          \<and> counterOfferSchema body \<noteq> None
          \<and> (\<forall>it \<in> set (k_items body). products d (b_productId it) \<noteq> None)
          \<and> offers d newId = None
          \<longrightarrow> (\<exists>new rows.
                 counterOffer d newId v i body
                   = (Inr (OfferRow newId new),
                      d\<lparr>offers := (offers d)(i \<mapsto> offer\<lparr>status := COUNTERED\<rparr>, newId \<mapsto> new),
                        items := items d @ rows\<rparr>)
                 \<and> status new = SENT
                 \<and> initiatorVendorId new = recipientVendorId offer
                 \<and> recipientVendorId new = initiatorVendorId offer
                 \<and> parentOfferId new = Some i))
       \<and> (recipientVendorId offer \<noteq> v \<or> (status offer \<noteq> SENT \<and> status offer \<noteq> COUNTERED)
          \<longrightarrow> (\<exists>e. counterOffer d newId v i body = (Inl e, d)))
       \<and> (\<forall>e. fst (counterOffer d newId v i body) = Inl e
              \<longrightarrow> snd (counterOffer d newId v i body) = d)"
proof (intro conjI impI allI)
  assume "(status offer = SENT \<or> status offer = COUNTERED) \<and> recipientVendorId offer = v
          \<and> counterOfferSchema body \<noteq> None
          \<and> (\<forall>it \<in> set (k_items body). products d (b_productId it) \<noteq> None)
          \<and> offers d newId = None"
  then show "\<exists>new rows.
                 counterOffer d newId v i body
                   = (Inr (OfferRow newId new),
                      d\<lparr>offers := (offers d)(i \<mapsto> offer\<lparr>status := COUNTERED\<rparr>, newId \<mapsto> new),
                        items := items d @ rows\<rparr>)
                 \<and> status new = SENT
                 \<and> initiatorVendorId new = recipientVendorId offer
                 \<and> recipientVendorId new = initiatorVendorId offer
                 \<and> parentOfferId new = Some i"
    using counterOffer_success [OF assms] by blast
next
  assume "recipientVendorId offer \<noteq> v \<or> (status offer \<noteq> SENT \<and> status offer \<noteq> COUNTERED)"
  then show "\<exists>e. counterOffer d newId v i body = (Inl e, d)"
    by (rule counterOffer_guard [OF assms])
next
  fix e assume "fst (counterOffer d newId v i body) = Inl e"
  then show "snd (counterOffer d newId v i body) = d"
    by (rule counterOffer_failure_keeps_db)
qed


theorem counter_swaps_roles_witness:
  "(\<exists>new rows. counterOffer (sampleDb (sampleOffer SENT False False)) ''o2'' ''B'' ''o1'' sampleCounter
      = (Inr (OfferRow ''o2'' new),
         (sampleDb (sampleOffer SENT False False))
           \<lparr>offers := (offers (sampleDb (sampleOffer SENT False False)))
                (''o1'' \<mapsto> (sampleOffer SENT False False)\<lparr>status := COUNTERED\<rparr>, ''o2'' \<mapsto> new),
             items := items (sampleDb (sampleOffer SENT False False)) @ rows\<rparr>)
      \<and> status new = SENT
      \<and> initiatorVendorId new = recipientVendorId (sampleOffer SENT False False)
      \<and> recipientVendorId new = initiatorVendorId (sampleOffer SENT False False)
      \<and> parentOfferId new = Some ''o1'')
   \<and> (\<exists>e. counterOffer (sampleDb (sampleOffer SENT False False)) ''o2'' ''A'' ''o1'' sampleCounter
          = (Inl e, sampleDb (sampleOffer SENT False False)))"
proof -
  let ?o = "sampleOffer SENT False False"
  let ?d = "sampleDb ?o"
  have stored: "offers ?d ''o1'' = Some ?o"
    by (simp add: sampleDb_def)
  have state: "status ?o = SENT \<or> status ?o = COUNTERED"
    by (simp add: sampleOffer_def)
  have actor: "recipientVendorId ?o = ''B''" and other: "recipientVendorId ?o \<noteq> ''A''"
    by (simp_all add: sampleOffer_def)
  have parses: "counterOfferSchema sampleCounter \<noteq> None"
    by (simp add: sampleCounter_def counterOfferSchema_def barterItemSchema_def)
  have known: "\<forall>it \<in> set (k_items sampleCounter). products ?d (b_productId it) \<noteq> None"
    by (simp add: sampleCounter_def sampleDb_def sampleProducts_def)
  have fresh: "offers ?d ''o2'' = None"
    by (simp add: sampleDb_def)
  have pre: "(status ?o = SENT \<or> status ?o = COUNTERED) \<and> recipientVendorId ?o = ''B''
          \<and> counterOfferSchema sampleCounter \<noteq> None
          \<and> (\<forall>it \<in> set (k_items sampleCounter). products ?d (b_productId it) \<noteq> None)
          \<and> offers ?d ''o2'' = None"
    using state actor parses known fresh by (intro conjI)
  note first = counter_swaps_roles [OF stored, where v = "''B''" and body = sampleCounter
      and newId = "''o2''", THEN conjunct1, THEN mp, OF pre]
  note second = counter_swaps_roles [OF stored, where v = "''A''" and body = sampleCounter
      and newId = "''o2''", THEN conjunct2, THEN conjunct1, THEN mp, OF disjI1, OF other]
  show ?thesis by (rule conjI [OF first second])
qed

section \<open>Transitions the table does not allow\<close>

lemma sendOffer_rejects:
  "offers d i = Some offer \<Longrightarrow> status offer \<noteq> DRAFT \<Longrightarrow>
   \<exists>m. sendOffer d v i = (Inl (Status400 m), d) \<or> sendOffer d v i = (Inl (Status403 m), d)"
  by (simp add: sendOffer_def)

lemma acceptOffer_rejects:
  "offers d i = Some offer \<Longrightarrow> status offer \<noteq> SENT \<Longrightarrow> status offer \<noteq> COUNTERED \<Longrightarrow>
   \<exists>m. acceptOffer d v i = (Inl (Status400 m), d) \<or> acceptOffer d v i = (Inl (Status403 m), d)"
  by (simp add: acceptOffer_def)

lemma rejectOffer_rejects:
  "offers d i = Some offer \<Longrightarrow> status offer \<noteq> SENT \<Longrightarrow> status offer \<noteq> COUNTERED \<Longrightarrow>
   \<exists>m. rejectOffer d v i = (Inl (Status400 m), d) \<or> rejectOffer d v i = (Inl (Status403 m), d)"
  by (simp add: rejectOffer_def)

lemma counterOffer_rejects:
  "offers d i = Some offer \<Longrightarrow> status offer \<noteq> SENT \<Longrightarrow> status offer \<noteq> COUNTERED \<Longrightarrow>
   \<exists>m. counterOffer d newId v i body = (Inl (Status400 m), d)
       \<or> counterOffer d newId v i body = (Inl (Status403 m), d)"
  by (simp add: counterOffer_def)

lemma cancelOffer_rejects:
  "offers d i = Some offer \<Longrightarrow> status offer \<noteq> DRAFT \<Longrightarrow> status offer \<noteq> SENT \<Longrightarrow>
   \<exists>m. cancelOffer d v i = (Inl (Status400 m), d) \<or> cancelOffer d v i = (Inl (Status403 m), d)"
  by (simp add: cancelOffer_def)

lemma fulfillOffer_rejects:
  "offers d i = Some offer \<Longrightarrow> status offer \<noteq> ACCEPTED \<Longrightarrow> status offer \<noteq> IN_PROGRESS \<Longrightarrow>
   \<exists>m. fulfillOffer d v i = (Inl (Status400 m), d) \<or> fulfillOffer d v i = (Inl (Status403 m), d)"
  by (simp add: fulfillOffer_def Let_def)

lemma disputeOffer_rejects:
  "offers d i = Some offer \<Longrightarrow> status offer \<noteq> ACCEPTED \<Longrightarrow> status offer \<noteq> IN_PROGRESS \<Longrightarrow>
   \<exists>m. disputeOffer d v i body = (Inl (Status400 m), d)
       \<or> disputeOffer d v i body = (Inl (Status403 m), d)"
  by (simp add: disputeOffer_def split: option.split)

lemma funpow_fixed: "f x = x \<Longrightarrow> (f ^^ n) x = x"
  by (induction n) simp_all

text \<open>
  Claim C7.  A party request (send, accept, reject, counter, cancel, fulfil or
  dispute) that addresses a stored offer whose state the transition table of the
  specification does not allow for that action is answered with a 400 or 403
  failure and leaves the database, and so the offer's state and flags, as it
  was; sending the same request \<open>n\<close> times leaves the database as it was.
\<close>

theorem rejected_transition_keeps_store:
  assumes "partyActionOf r = Some a"
    and "addressedOffer r = Some i"
    and "offers d i = Some offer"
    and "\<not> spec_table_permits a (status offer)"
  shows "(\<exists>m. route d r = (Inl (Status400 m), d) \<or> route d r = (Inl (Status403 m), d))
         \<and> retried n r d = d
         \<and> offers (retried n r d) i = Some offer"
proof -
  have once: "\<exists>m. route d r = (Inl (Status400 m), d) \<or> route d r = (Inl (Status403 m), d)"
  proof (cases r)
    case (Send v j)
    with assms show ?thesis using sendOffer_rejects [of d i offer v] by auto
  next
    case (Accept v j)
    with assms show ?thesis using acceptOffer_rejects [of d i offer v] by auto
  next
    case (Reject v j)
    with assms show ?thesis using rejectOffer_rejects [of d i offer v] by auto
  next
    case (Counter newId v j body)
    with assms show ?thesis using counterOffer_rejects [of d i offer newId v body] by auto
  next
    case (Cancel v j)
    with assms show ?thesis using cancelOffer_rejects [of d i offer v] by auto
  next
    case (Fulfill v j)
    with assms show ?thesis using fulfillOffer_rejects [of d i offer v] by auto
  next
    case (Dispute v j body)
    with assms show ?thesis using disputeOffer_rejects [of d i offer v body] by auto
  qed (use assms in simp_all)
  then have "after r d = d"
    by (auto simp: after_def)
  then have again: "retried n r d = d"
    by (simp add: retried_def funpow_fixed)
  from once again assms(3) show ?thesis by simp
qed

theorem rejected_transition_keeps_store_witness:
  "(\<exists>m. route (sampleDb (sampleOffer DRAFT False False)) (Accept ''B'' ''o1'')
           = (Inl (Status400 m), sampleDb (sampleOffer DRAFT False False))
       \<or> route (sampleDb (sampleOffer DRAFT False False)) (Accept ''B'' ''o1'')
           = (Inl (Status403 m), sampleDb (sampleOffer DRAFT False False)))
   \<and> retried 3 (Accept ''B'' ''o1'') (sampleDb (sampleOffer DRAFT False False))
       = sampleDb (sampleOffer DRAFT False False)
   \<and> offers (retried 3 (Accept ''B'' ''o1'') (sampleDb (sampleOffer DRAFT False False))) ''o1''
       = Some (sampleOffer DRAFT False False)"
proof -
  let ?o = "sampleOffer DRAFT False False"
  have kind: "partyActionOf (Accept ''B'' ''o1'') = Some AcceptAction"
    and target: "addressedOffer (Accept ''B'' ''o1'') = Some ''o1''"
    by simp_all
  have stored: "offers (sampleDb ?o) ''o1'' = Some ?o"
    by (simp add: sampleDb_def)
  have barred: "\<not> spec_table_permits AcceptAction (status ?o)"
    by (simp add: sampleOffer_def)
  show ?thesis
    by (rule rejected_transition_keeps_store [OF kind target stored barred])
qed

section \<open>Closed offers\<close>

lemma status_rewritten: "status offer = st \<Longrightarrow> offer\<lparr>status := st\<rparr> = offer"
  by (cases offer) simp

lemma createOffer_keeps:
  "offers d i = Some offer \<Longrightarrow> offers (snd (createOffer d newId v body)) i = Some offer"
  by (auto simp: createOffer_def Let_def split: option.split)

lemma updateOffer_keeps:
  "offers d i = Some offer \<Longrightarrow> status offer \<noteq> DRAFT \<Longrightarrow>
   offers (snd (updateOffer d v j body)) i = Some offer"
  by (auto simp: updateOffer_def Let_def split: option.split)

lemma sendOffer_keeps:
  "offers d i = Some offer \<Longrightarrow> status offer \<noteq> DRAFT \<Longrightarrow>
   offers (snd (sendOffer d v j)) i = Some offer"
  by (auto simp: sendOffer_def Let_def split: option.split)

lemma acceptOffer_keeps:
  "offers d i = Some offer \<Longrightarrow>
   (status offer \<noteq> SENT \<and> status offer \<noteq> COUNTERED) \<or> j \<noteq> i
     \<or> v \<noteq> recipientVendorId offer \<Longrightarrow>
   offers (snd (acceptOffer d v j)) i = Some offer"
  by (auto simp: acceptOffer_def Let_def split: option.split)

lemma rejectOffer_keeps:
  "offers d i = Some offer \<Longrightarrow>
   (status offer \<noteq> SENT \<and> status offer \<noteq> COUNTERED) \<or> j \<noteq> i
     \<or> v \<noteq> recipientVendorId offer \<Longrightarrow>
   offers (snd (rejectOffer d v j)) i = Some offer"
  by (auto simp: rejectOffer_def Let_def split: option.split)

lemma counterOffer_keeps:
  "offers d i = Some offer \<Longrightarrow> status offer \<noteq> SENT \<Longrightarrow>
   offers (snd (counterOffer d newId v j body)) i = Some offer"
  by (auto simp: counterOffer_def Let_def status_rewritten split: option.split)

lemma cancelOffer_keeps:
  "offers d i = Some offer \<Longrightarrow> status offer \<noteq> DRAFT \<Longrightarrow> status offer \<noteq> SENT \<Longrightarrow>
   offers (snd (cancelOffer d v j)) i = Some offer"
  by (auto simp: cancelOffer_def Let_def split: option.split)

lemma fulfillOffer_keeps:
  "offers d i = Some offer \<Longrightarrow> status offer \<noteq> ACCEPTED \<Longrightarrow> status offer \<noteq> IN_PROGRESS \<Longrightarrow>
   offers (snd (fulfillOffer d v j)) i = Some offer"
  by (auto simp: fulfillOffer_def Let_def split: option.split)

lemma disputeOffer_keeps:
  "offers d i = Some offer \<Longrightarrow> status offer \<noteq> ACCEPTED \<Longrightarrow> status offer \<noteq> IN_PROGRESS \<Longrightarrow>
   offers (snd (disputeOffer d v j body)) i = Some offer"
  by (auto simp: disputeOffer_def Let_def split: option.split)

lemma resolveDispute_keeps:
  "offers d i = Some offer \<Longrightarrow> status offer \<noteq> DISPUTED \<Longrightarrow>
   offers (snd (resolveDispute d admin j body)) i = Some offer"
  by (auto simp: resolveDispute_def Let_def split: option.split)


lemma acceptOffer_moves:
  "offers d i = Some offer \<Longrightarrow> status offer = SENT \<or> status offer = COUNTERED \<Longrightarrow>
   acceptOffer d (recipientVendorId offer) i
     = (Inr (OfferRow i (offer\<lparr>status := ACCEPTED\<rparr>)),
        d\<lparr>offers := (offers d)(i \<mapsto> offer\<lparr>status := ACCEPTED\<rparr>)\<rparr>)"
  by (auto simp: acceptOffer_def Let_def)

lemma rejectOffer_moves:
  "offers d i = Some offer \<Longrightarrow> status offer = SENT \<or> status offer = COUNTERED \<Longrightarrow>
   rejectOffer d (recipientVendorId offer) i
     = (Inr (OfferRow i (offer\<lparr>status := REJECTED\<rparr>)),
        d\<lparr>offers := (offers d)(i \<mapsto> offer\<lparr>status := REJECTED\<rparr>)\<rparr>)"
  by (auto simp: rejectOffer_def Let_def)

lemma forceStatus_writes:
  "offers d i = Some offer \<Longrightarrow>
   forceStatus d i st
     = (Inr (OfferRow i (offer\<lparr>status := st\<rparr>)),
        d\<lparr>offers := (offers d)(i \<mapsto> offer\<lparr>status := st\<rparr>)\<rparr>)"
  by (simp add: forceStatus_def Let_def)

lemma closed_offer_frame:
  assumes "offers d i = Some offer"
    and "\<not> isForceStatus r"
    and "status offer = REJECTED \<or> status offer = CANCELLED \<or> status offer = COMPLETED
         \<or> (status offer = COUNTERED
             \<and> r \<noteq> Accept (recipientVendorId offer) i
             \<and> r \<noteq> Reject (recipientVendorId offer) i)"
  shows "offers (after r d) i = Some offer"
proof (cases r)
  case (Create newId v body)
  then show ?thesis using assms(1) by (simp add: after_def createOffer_keeps)
next
  case (Update v j body)
  then show ?thesis using assms(1,3) by (auto simp: after_def updateOffer_keeps)
next
  case (Send v j)
  then show ?thesis using assms(1,3) by (auto simp: after_def sendOffer_keeps)
next
  case (Accept v j)
  then show ?thesis using assms(1,3) by (auto simp: after_def acceptOffer_keeps)
next
  case (Reject v j)
  then show ?thesis using assms(1,3) by (auto simp: after_def rejectOffer_keeps)
next
  case (Counter newId v j body)
  then show ?thesis using assms(1,3) by (auto simp: after_def counterOffer_keeps)
next
  case (Cancel v j)
  then show ?thesis using assms(1,3) by (auto simp: after_def cancelOffer_keeps)
next
  case (Fulfill v j)
  then show ?thesis using assms(1,3) by (auto simp: after_def fulfillOffer_keeps)
next
  case (Dispute v j body)
  then show ?thesis using assms(1,3) by (auto simp: after_def disputeOffer_keeps)
next
  case (Resolve admin j body)
  then show ?thesis using assms(1,3) by (auto simp: after_def resolveDispute_keeps)
next
  case (ForceStatus j st)
  then show ?thesis using assms(2) by simp
qed

text \<open>
  Claim C6, as amended.  A stored offer whose state is REJECTED, CANCELLED or
  COMPLETED is left as it is, state included, by every request other than the
  admin's forced status change: create, update, send, accept, reject, counter,
  cancel, fulfil, dispute and the arbiter's resolve, whoever sends them and
  whichever offer they address.  The same holds for an offer whose state is
  COUNTERED, with two exceptions only: the accept and the reject that its
  recipient addresses to it, which move it to ACCEPTED and to REJECTED (an
  accept or reject of anyone else leaves it, and a counter writes COUNTERED
  again).  The admin's forced status change writes the submitted state over the
  state of the offer it addresses, whatever that state is.
\<close>

theorem closed_offer_is_kept:
  assumes "offers d i = Some offer"
  shows "(\<not> isForceStatus r
          \<and> (status offer = REJECTED \<or> status offer = CANCELLED \<or> status offer = COMPLETED
              \<or> (status offer = COUNTERED
                  \<and> r \<noteq> Accept (recipientVendorId offer) i
                  \<and> r \<noteq> Reject (recipientVendorId offer) i))
          \<longrightarrow> offers (after r d) i = Some offer)
       \<and> (status offer = COUNTERED
          \<longrightarrow> offers (after (Accept (recipientVendorId offer) i) d) i
                = Some (offer\<lparr>status := ACCEPTED\<rparr>)
              \<and> offers (after (Reject (recipientVendorId offer) i) d) i
                = Some (offer\<lparr>status := REJECTED\<rparr>))
       \<and> offers (after (ForceStatus i st) d) i = Some (offer\<lparr>status := st\<rparr>)"
proof (intro conjI impI)
  assume "\<not> isForceStatus r
          \<and> (status offer = REJECTED \<or> status offer = CANCELLED \<or> status offer = COMPLETED
              \<or> (status offer = COUNTERED
                  \<and> r \<noteq> Accept (recipientVendorId offer) i
                  \<and> r \<noteq> Reject (recipientVendorId offer) i))"
  then show "offers (after r d) i = Some offer"
    using closed_offer_frame [OF assms, of r] by blast
next
  assume "status offer = COUNTERED"
  then show "offers (after (Accept (recipientVendorId offer) i) d) i
                = Some (offer\<lparr>status := ACCEPTED\<rparr>)"
    using acceptOffer_moves [OF assms] by (simp add: after_def)
next
  assume "status offer = COUNTERED"
  then show "offers (after (Reject (recipientVendorId offer) i) d) i
                = Some (offer\<lparr>status := REJECTED\<rparr>)"
    using rejectOffer_moves [OF assms] by (simp add: after_def)
next
  show "offers (after (ForceStatus i st) d) i = Some (offer\<lparr>status := st\<rparr>)"
    using forceStatus_writes [OF assms] by (simp add: after_def)
qed

theorem closed_offer_is_kept_witness:
  "offers (after (Cancel ''A'' ''o1'') (sampleDb (sampleOffer REJECTED False False))) ''o1''
     = Some (sampleOffer REJECTED False False)
   \<and> offers (after (Counter ''o2'' ''B'' ''o1'' sampleCounter)
                (sampleDb (sampleOffer COUNTERED False False))) ''o1''
     = Some (sampleOffer COUNTERED False False)
   \<and> offers (after (Accept ''C'' ''o1'') (sampleDb (sampleOffer COUNTERED False False))) ''o1''
     = Some (sampleOffer COUNTERED False False)
   \<and> offers (after (Reject ''A'' ''o1'') (sampleDb (sampleOffer COUNTERED False False))) ''o1''
     = Some (sampleOffer COUNTERED False False)
   \<and> offers (after (Accept ''B'' ''o1'') (sampleDb (sampleOffer COUNTERED False False))) ''o1''
     = Some (sampleOffer ACCEPTED False False)
   \<and> offers (after (Reject ''B'' ''o1'') (sampleDb (sampleOffer COUNTERED False False))) ''o1''
     = Some (sampleOffer REJECTED False False)
   \<and> offers (after (ForceStatus ''o1'' SENT) (sampleDb (sampleOffer CANCELLED False False))) ''o1''
     = Some (sampleOffer SENT False False)"
proof -
  have stored: "offers (sampleDb (sampleOffer st fi fr)) ''o1'' = Some (sampleOffer st fi fr)"
    for st fi fr
    by (simp add: sampleDb_def)
  note kept = closed_offer_is_kept [OF stored, THEN conjunct1, THEN mp]
  note moved = closed_offer_is_kept [OF stored, THEN conjunct2, THEN conjunct1, THEN mp]
  note forced = closed_offer_is_kept [OF stored [of CANCELLED False False],
      THEN conjunct2, THEN conjunct2, of SENT]
  have recipient: "recipientVendorId (sampleOffer COUNTERED False False) = ''B''"
    by (simp add: sampleOffer_def)
  have countered: "status (sampleOffer COUNTERED False False) = COUNTERED"
    by (simp add: sampleOffer_def)
  have k1: "offers (after (Cancel ''A'' ''o1'') (sampleDb (sampleOffer REJECTED False False)))
       ''o1'' = Some (sampleOffer REJECTED False False)"
    by (rule kept) (simp add: sampleOffer_def)
  have k2: "offers (after (Counter ''o2'' ''B'' ''o1'' sampleCounter)
                (sampleDb (sampleOffer COUNTERED False False))) ''o1''
     = Some (sampleOffer COUNTERED False False)"
    by (rule kept) (simp add: sampleOffer_def)
  have k3: "offers (after (Accept ''C'' ''o1'') (sampleDb (sampleOffer COUNTERED False False)))
       ''o1'' = Some (sampleOffer COUNTERED False False)"
    by (rule kept) (simp add: sampleOffer_def)
  have k4: "offers (after (Reject ''A'' ''o1'') (sampleDb (sampleOffer COUNTERED False False)))
       ''o1'' = Some (sampleOffer COUNTERED False False)"
    by (rule kept) (simp add: sampleOffer_def)
  have m: "offers (after (Accept ''B'' ''o1'') (sampleDb (sampleOffer COUNTERED False False)))
       ''o1'' = Some (sampleOffer ACCEPTED False False)
     \<and> offers (after (Reject ''B'' ''o1'') (sampleDb (sampleOffer COUNTERED False False)))
       ''o1'' = Some (sampleOffer REJECTED False False)"
    using moved [OF countered] by (simp add: sampleOffer_def)
  have f: "offers (after (ForceStatus ''o1'' SENT) (sampleDb (sampleOffer CANCELLED False False)))
       ''o1'' = Some (sampleOffer SENT False False)"
    using forced by (simp add: sampleOffer_def)
  from k1 k2 k3 k4 m f show ?thesis by simp
qed

text \<open>
  Claim C6 as stated fails: the recipient's accept and reject move the COUNTERED
  sample offer to ACCEPTED and to REJECTED, and the admin's forced status change
  moves the COMPLETED sample offer to DRAFT.
\<close>

theorem closed_offer_reopened_counterexample:
  "status (sampleOffer COUNTERED False False) = COUNTERED
   \<and> offers (sampleDb (sampleOffer COUNTERED False False)) ''o1''
       = Some (sampleOffer COUNTERED False False)
   \<and> offers (after (Accept ''B'' ''o1'') (sampleDb (sampleOffer COUNTERED False False))) ''o1''
       = Some (sampleOffer ACCEPTED False False)
   \<and> status (sampleOffer ACCEPTED False False) \<noteq> COUNTERED
   \<and> offers (after (Reject ''B'' ''o1'') (sampleDb (sampleOffer COUNTERED False False))) ''o1''
       = Some (sampleOffer REJECTED False False)
   \<and> status (sampleOffer REJECTED False False) \<noteq> COUNTERED
   \<and> offers (after (ForceStatus ''o1'' DRAFT) (sampleDb (sampleOffer COMPLETED True True))) ''o1''
       = Some (sampleOffer DRAFT True True)
   \<and> status (sampleOffer DRAFT True True) \<noteq> COMPLETED"
  by (simp add: after_def acceptOffer_def rejectOffer_def forceStatus_def sampleDb_def
      sampleOffer_def Let_def)

section \<open>Item validation and value snapshots\<close>

text \<open>
  What create guarantees: an offer is created only if every submitted item
  names an existing product that is neither soft-deleted nor unavailable and
  that belongs to the initiator when the item is offered, to the recipient when
  it is requested.  The rows built for the items carry the product's price of
  that moment as \<open>valueCents\<close>.
\<close>

lemma validateItems_passed:
  "validateItems pm ini rec its = None \<Longrightarrow> it \<in> set its \<Longrightarrow>
   \<exists>p. pm (b_productId it) = Some p \<and> \<not> isDeleted p \<and> isAvailable p
       \<and> (if b_isOffered it then vendorId p = ini else vendorId p = rec)"
  by (induction its) (auto split: option.splits if_splits)

lemma itemRows_snapshot:
  "itemRows pm n its = Some rows \<Longrightarrow>
   length rows = length its
   \<and> (\<forall>k < length its.
         pm (b_productId (its ! k)) \<noteq> None
         \<and> valueCents (rows ! k) = priceUsdCents (the (pm (b_productId (its ! k))))
         \<and> productId (rows ! k) = b_productId (its ! k)
         \<and> quantity (rows ! k) = b_quantity (its ! k)
         \<and> isOffered (rows ! k) = b_isOffered (its ! k)
         \<and> offerId (rows ! k) = n)"
proof (induction its arbitrary: rows)
  case Nil
  then show ?case by simp
next
  case (Cons it its)
  then show ?case
    by (auto split: option.splits simp: nth_Cons split: nat.splits)
qed

lemma createOffer_validates_items:
  assumes "createOffer d newId v body = (Inr x, d')"
    and "it \<in> set (c_items body)"
  shows "\<exists>p. products d (b_productId it) = Some p \<and> \<not> isDeleted p \<and> isAvailable p
             \<and> (if b_isOffered it then vendorId p = v
                 else vendorId p = c_recipientVendorId body)"
proof -
  from assms(1) obtain parsed where parsed: "createOfferSchema body = Some parsed"
    by (auto simp: createOffer_def split: option.splits)
  then have same: "cd_items parsed = c_items body"
      "cd_recipientVendorId parsed = c_recipientVendorId body"
    by (auto simp: createOfferSchema_def Let_def split: if_splits)
  from assms(1) parsed same
  have "validateItems (productMapOf d (c_items body)) v (c_recipientVendorId body)
          (c_items body) = None"
    by (auto simp: createOffer_def Let_def split: option.splits if_splits)
  from validateItems_passed [OF this assms(2)] assms(2) show ?thesis
    by (auto simp: productMapOf_def restrict_map_def split: if_splits)
qed


lemma createOffer_rejects_foreign_and_deleted:
  "fst (createOffer (sampleDb (sampleOffer DRAFT False False)) ''o2'' ''B''
         (createWith ''A'' foreignItem None))
     = Inl (Status400 ''You can only offer your own products'')
   \<and> fst (createOffer (sampleDb (sampleOffer DRAFT False False)) ''o2'' ''B''
         (createWith ''A'' deletedItem None))
     = Inl (Status400 ''Product pX is not available'')
   \<and> fst (createOffer (sampleDb (sampleOffer DRAFT False False)) ''o2'' ''B''
         (createWith ''A'' unknownItem None))
     = Inl (Status400 ''Product pZ not found'')"
  by (simp add: createOffer_def createOfferSchema_def
      barterItemSchema_def productMapOf_def restrict_map_def createWith_def
      foreignItem_def deletedItem_def unknownItem_def
      sampleDb_def sampleProducts_def sampleVendors_def Let_def)

text \<open>
  Claim C3.  The claim asks that update and counter reject a request in which an
  offered item names a product the acting initiator does not own, and persist
  no item of it.  The handlers load the products (the counter handler under the
  comment \<^verbatim>\<open>// Validate products\<close>) and never run the loop of create: on the
  sample database the counter of \<open>B\<close> and the update of \<open>A\<close>, each offering the
  product of the third vendor \<open>C\<close>, succeed and store the item.
\<close>

theorem counter_and_update_persist_foreign_item:
  "map_option vendorId (products (sampleDb (sampleOffer SENT False False)) ''pC'') = Some ''C''
   \<and> \<not> isl (fst (counterOffer (sampleDb (sampleOffer SENT False False)) ''o2'' ''B'' ''o1''
                    (counterWith foreignItem)))
   \<and> items (snd (counterOffer (sampleDb (sampleOffer SENT False False)) ''o2'' ''B'' ''o1''
                    (counterWith foreignItem)))
       = sampleItems @ [\<lparr>offerId = ''o2'', productId = ''pC'', quantity = 1,
                         valueCents = 700, isOffered = True\<rparr>]
   \<and> \<not> isl (fst (updateOffer (sampleDb (sampleOffer DRAFT False False)) ''A'' ''o1''
                    (updateWith (Some [foreignItem]) None)))
   \<and> items (snd (updateOffer (sampleDb (sampleOffer DRAFT False False)) ''A'' ''o1''
                    (updateWith (Some [foreignItem]) None)))
       = [\<lparr>offerId = ''o1'', productId = ''pC'', quantity = 1,
           valueCents = 700, isOffered = True\<rparr>]"
  by (simp add: counterOffer_def updateOffer_def counterOfferSchema_def updateOfferSchema_def
      barterItemSchema_def productMapOf_def restrict_map_def
      counterWith_def updateWith_def foreignItem_def
      sampleDb_def sampleOffer_def sampleProducts_def sampleItems_def Let_def)

text \<open>
  Claim C4.  The claim asks that a counter which names a soft-deleted,
  unavailable or missing product be rejected with a validation error.  The
  counter handler selects neither \<^verbatim>\<open>isDeleted\<close> nor \<^verbatim>\<open>isAvailable\<close>: on the
  sample database the counter of \<open>B\<close> that offers its soft-deleted product
  succeeds and stores the item with the product's price, and a counter that
  names a missing product ends in the \<^verbatim>\<open>catch\<close> block with 500 (the
  database unchanged), not with the 400 of create.
\<close>

theorem counter_accepts_deleted_product:
  "map_option isDeleted (products (sampleDb (sampleOffer SENT False False)) ''pX'') = Some True
   \<and> \<not> isl (fst (counterOffer (sampleDb (sampleOffer SENT False False)) ''o2'' ''B'' ''o1''
                    (counterWith deletedItem)))
   \<and> items (snd (counterOffer (sampleDb (sampleOffer SENT False False)) ''o2'' ''B'' ''o1''
                    (counterWith deletedItem)))
       = sampleItems @ [\<lparr>offerId = ''o2'', productId = ''pX'', quantity = 1,
                         valueCents = 300, isOffered = True\<rparr>]
   \<and> products (sampleDb (sampleOffer SENT False False)) ''pZ'' = None
   \<and> counterOffer (sampleDb (sampleOffer SENT False False)) ''o2'' ''B'' ''o1''
        (counterWith unknownItem)
       = (Inl Status500, sampleDb (sampleOffer SENT False False))"
  by (simp add: counterOffer_def counterOfferSchema_def
      barterItemSchema_def productMapOf_def restrict_map_def
      counterWith_def deletedItem_def unknownItem_def
      sampleDb_def sampleOffer_def sampleProducts_def sampleItems_def Let_def)

text \<open>
  Claim C5.  The claim asks that after a successful update the direction of the
  cash gap be non-null exactly when the gap is positive.  The update handler
  writes the two fields independently: lowering the gap of the sample draft
  (500, RECIPIENT_PAYS) to 0 leaves the direction in place, where create and
  counter store null for a gap of 0.
\<close>

theorem update_keeps_direction_without_gap:
  "cashGapDirection (sampleOffer DRAFT False False) = Some RECIPIENT_PAYS
   \<and> updateOffer (sampleDb (sampleOffer DRAFT False False)) ''A'' ''o1''
        (updateWith None (Some 0))
       = (Inr (OfferRow ''o1'' ((sampleOffer DRAFT False False)\<lparr>cashGapCents := 0\<rparr>)),
          sampleDb ((sampleOffer DRAFT False False)\<lparr>cashGapCents := 0\<rparr>))
   \<and> cashGapCents ((sampleOffer DRAFT False False)\<lparr>cashGapCents := 0\<rparr>) = 0
   \<and> cashGapDirection ((sampleOffer DRAFT False False)\<lparr>cashGapCents := 0\<rparr>)
       = Some RECIPIENT_PAYS"
  by (simp add: updateOffer_def updateOfferSchema_def updateWith_def
      sampleDb_def sampleOffer_def Let_def)

text \<open>
  Create and counter store null as the direction of a gap of 0, so a direction
  they store comes with a positive gap; a positive gap submitted without a
  direction is stored with the direction null.
\<close>

lemma direction_implies_gap:
  "cashGapDirection (createOfferData v p) \<noteq> None \<Longrightarrow> 0 < cashGapCents (createOfferData v p)"
  "cashGapDirection (counterOfferData v offer i k) \<noteq> None
     \<Longrightarrow> 0 < cashGapCents (counterOfferData v offer i k)"
  by (auto simp: createOfferData_def counterOfferData_def split: if_splits)

lemma createOffer_gap_without_direction:
  "fst (createOffer (sampleDb (sampleOffer DRAFT False False)) ''o2'' ''A''
         (createWith ''B'' \<lparr>b_productId = ''pA'', b_quantity = 1, b_isOffered = True\<rparr> (Some 500)))
     = Inr (OfferWithItems ''o2''
         ((sampleOffer DRAFT False False)\<lparr>cashGapDirection := None\<rparr>)
         [\<lparr>offerId = ''o2'', productId = ''pA'', quantity = 1, valueCents = 1000,
           isOffered = True\<rparr>])"
  by (simp add: createOffer_def createOfferSchema_def createOfferData_def
      barterItemSchema_def productMapOf_def restrict_map_def createWith_def
      sampleDb_def sampleOffer_def sampleProducts_def sampleVendors_def Let_def)

section \<open>The two parties of an offer differ\<close>

text \<open>
  Create refuses an offer to oneself and counter swaps the two parties of its
  predecessor; no handler writes the party columns of an existing row.  So if
  the parties of every stored offer differ, they still do after any request.
\<close>

lemma partiesDiffer_update [simp]:
  "partiesDiffer (offer\<lparr>status := st\<rparr>) = partiesDiffer offer"
  "partiesDiffer (offer\<lparr>fulfilledByInitiator := b\<rparr>) = partiesDiffer offer"
  "partiesDiffer (offer\<lparr>fulfilledByRecipient := b\<rparr>) = partiesDiffer offer"
  "partiesDiffer (offer\<lparr>cashGapCents := c\<rparr>) = partiesDiffer offer"
  "partiesDiffer (offer\<lparr>cashGapDirection := dir\<rparr>) = partiesDiffer offer"
  "partiesDiffer (offer\<lparr>message := m\<rparr>) = partiesDiffer offer"
  "partiesDiffer (offer\<lparr>disputeReason := m\<rparr>) = partiesDiffer offer"
  "partiesDiffer (offer\<lparr>disputeResolvedBy := m\<rparr>) = partiesDiffer offer"
  "partiesDiffer (offer\<lparr>disputeResolution := m\<rparr>) = partiesDiffer offer"
  by (simp_all add: partiesDiffer_def)

lemma parties_differ_preserved:
  assumes inv: "\<And>j offer. offers d j = Some offer \<Longrightarrow> partiesDiffer offer"
  shows "\<forall>i offer'. offers (after r d) i = Some offer' \<longrightarrow> partiesDiffer offer'"
proof (cases r)
  case (Create newId v body)
  have "cd_recipientVendorId p \<noteq> v \<Longrightarrow> partiesDiffer (createOfferData v p)" for p
    by (auto simp: partiesDiffer_def createOfferData_def)
  with Create inv show ?thesis
    by (auto simp: after_def createOffer_def Let_def split: option.split)
next
  case (Update v j body)
  with inv show ?thesis
    by (auto simp: after_def updateOffer_def Let_def split: option.split)
next
  case (Send v j)
  with inv show ?thesis
    by (auto simp: after_def sendOffer_def Let_def split: option.split)
next
  case (Accept v j)
  with inv show ?thesis
    by (auto simp: after_def acceptOffer_def Let_def split: option.split)
next
  case (Reject v j)
  with inv show ?thesis
    by (auto simp: after_def rejectOffer_def Let_def split: option.split)
next
  case (Counter newId v j body)
  have "partiesDiffer offer \<Longrightarrow> recipientVendorId offer = v
        \<Longrightarrow> partiesDiffer (counterOfferData v offer j p)" for offer p
    by (auto simp: partiesDiffer_def counterOfferData_def)
  with Counter inv show ?thesis
    by (auto simp: after_def counterOffer_def Let_def split: option.split)
next
  case (Cancel v j)
  with inv show ?thesis
    by (auto simp: after_def cancelOffer_def Let_def split: option.split)
next
  case (Fulfill v j)
  with inv show ?thesis
    by (auto simp: after_def fulfillOffer_def Let_def split: option.split)
next
  case (Dispute v j body)
  with inv show ?thesis
    by (auto simp: after_def disputeOffer_def Let_def split: option.split)
next
  case (Resolve admin j body)
  with inv show ?thesis
    by (auto simp: after_def resolveDispute_def Let_def split: option.split)
next
  case (ForceStatus j st)
  with inv show ?thesis
    by (auto simp: after_def forceStatus_def Let_def split: option.split)
qed

end
